theory Spec2Isabelle
  imports Main "HOL-Library.Word" "HOL-Library.Sublist"
begin

unbundle bit_operations_syntax

chapter \<open>The embedding of drsh.c\<close>

section \<open>Bytes\<close>

text \<open>
  A C \<^verbatim>\<open>char\<close> is a \<^typ>\<open>char\<close> (eight bits), a buffer of \<^verbatim>\<open>length\<close> bytes a
  \<^typ>\<open>string\<close>. The source folds case by \<^verbatim>\<open>c | 0x20\<close>: bit 5 of the byte is set,
  whatever the byte is. \<open>Char\<close> lists the bits from the least significant one, so bit 5
  is its sixth argument.
\<close>

fun or20 :: "char \<Rightarrow> char" where
  "or20 (Char b0 b1 b2 b3 b4 b5 b6 b7) = Char b0 b1 b2 b3 b4 True b6 b7"

lemma or20_idem [simp]: "or20 (or20 c) = or20 c"
  by (cases c) simp

text \<open>The terminator byte \<^verbatim>\<open>'\0'\<close>.\<close>

definition NUL :: char where
  "NUL = CHR 0x00"

section \<open>Byte expansion distance (drsh.c, lines 549--615)\<close>

text \<open>
  \<^verbatim>\<open>byte_expansion_distance\<close> is an endless outer loop around two inner loops: the first
  strips the leading extent of haystack and needle that matches, the second strips the
  haystack, counting, until its first byte matches the needle's. Each loop is one function
  of the mutual recursion below; \<open>bed_skip\<close> going back to \<open>bed_outer\<close> is the
  \<^verbatim>\<open>break\<close> that returns to the top. The pointers with their lengths are the remaining
  lists. \<^verbatim>\<open>ssize_t difference\<close> is an \<^typ>\<open>int\<close>: it is at most the haystack's length, which
  fits for every object a C program can hold.

  The two C functions differ in the comparison of the two bytes only, which is the parameter
  \<open>eq\<close>.
\<close>

function bed_outer :: "(char \<Rightarrow> char \<Rightarrow> bool) \<Rightarrow> string \<Rightarrow> string \<Rightarrow> int \<Rightarrow> int"
  and bed_strip :: "(char \<Rightarrow> char \<Rightarrow> bool) \<Rightarrow> string \<Rightarrow> string \<Rightarrow> int \<Rightarrow> int"
  and bed_skip :: "(char \<Rightarrow> char \<Rightarrow> bool) \<Rightarrow> string \<Rightarrow> string \<Rightarrow> int \<Rightarrow> int"
where
  "bed_outer eq haystack needle difference =
     (if length needle > length haystack then -1
      else if needle = [] then difference + int (length haystack)
      else bed_strip eq haystack needle difference)"
| "bed_strip eq haystack needle difference =
     (if needle = [] then difference + int (length haystack)
      else if haystack = [] then -1
      else if eq (hd haystack) (hd needle)
        then bed_strip eq (tl haystack) (tl needle) difference
      else bed_skip eq haystack needle difference)"
| "bed_skip eq haystack needle difference =
     (if haystack = [] then -1
      else if eq (hd haystack) (hd needle) then bed_outer eq haystack needle difference
      else bed_skip eq (tl haystack) needle (difference + 1))"
  by pat_completeness auto
termination
  apply (relation "measure (\<lambda>x. case x of
      Inl (eq, h, n, d) \<Rightarrow> 4 * length h + (if h \<noteq> [] \<and> eq (hd h) (hd n) then 2 else 3)
    | Inr (Inl (eq, h, n, d)) \<Rightarrow> 4 * length h + (if h \<noteq> [] \<and> eq (hd h) (hd n) then 1 else 2)
    | Inr (Inr (eq, h, n, d)) \<Rightarrow> 4 * length h + (if h \<noteq> [] \<and> eq (hd h) (hd n) then 3 else 1))")
      apply (auto simp: neq_Nil_conv)
  done

declare bed_outer.simps [simp del] bed_strip.simps [simp del] bed_skip.simps [simp del]

definition byte_expansion_distance :: "string \<Rightarrow> string \<Rightarrow> int" where
  "byte_expansion_distance haystack needle = bed_outer (=) haystack needle 0"

definition byte_expansion_distance_icase :: "string \<Rightarrow> string \<Rightarrow> int" where
  "byte_expansion_distance_icase haystack needle =
     bed_outer (\<lambda>a b. or20 a = or20 b) haystack needle 0"

section \<open>Result codes\<close>

text \<open>
  \<^verbatim>\<open>DrshEC\<close> (drsh.c, lines 654--665). \<^verbatim>\<open>EC_OK\<close> is the \<open>Inr\<close> of a result; the other codes are
  the \<open>Inl\<close>. \<open>Undefined\<close> is no code of the source: it marks a run that C leaves undefined,
  a read of memory that was never written or past the end of an array, or a loop that never
  ends.
\<close>

datatype error = EC_OOM | EC_IO_ERROR | EC_ASSERTION_ERROR | EC_UNIMPLEMENTED_ERROR
  | EC_VALUE_ERROR | EC_EOF | EC_NOT_FOUND | EC_EXIT | Undefined

section \<open>Hashing (drsh.c, lines 456--524)\<close>






text \<open>\<^verbatim>\<open>((uint64_t)x * (uint64_t)y) >> 32\<close>, with \<open>y\<close> the capacity cast to \<^verbatim>\<open>uint32_t\<close>.\<close>

definition drsh_fast_reduce32 :: "32 word \<Rightarrow> nat \<Rightarrow> nat" where
  "drsh_fast_reduce32 x y = (unat x * (y mod 2 ^ 32)) div 2 ^ 32"

section \<open>Memory\<close>

text \<open>
  \<^verbatim>\<open>malloc\<close> and \<^verbatim>\<open>realloc\<close> may return \<^verbatim>\<open>NULL\<close>. \<open>mallocs\<close> lists the outcomes of the
  requests to come, in the order in which the program makes them: \<open>True\<close> for a request that
  is served, \<open>False\<close> for one that returns \<^verbatim>\<open>NULL\<close>; when the list is used up every further
  request is served. What is proved for every such list holds however the allocator behaves.

  \<open>heap\<close> holds the atoms that have been allocated, in the order of their allocation. An
  atom is allocated once, never moves and is never freed: a pointer to an atom is modelled as
  the atom's position in \<open>heap\<close>, and \<^verbatim>\<open>NULL\<close> as \<open>None\<close>. The field \<^verbatim>\<open>len\<close> of an atom is the
  length of its text (the call that makes an atom refuses a text of \<^verbatim>\<open>UINT32_MAX\<close> bytes or
  more), and the field \<^verbatim>\<open>txt\<close> is named \<open>atom_txt\<close>.
\<close>

record DrshAtom =
  hash :: "32 word"
  iatom :: "nat option"
  atom_txt :: string

record Memory =
  heap :: "DrshAtom list"
  mallocs :: "bool list"

definition malloc :: "Memory \<Rightarrow> bool \<times> Memory" where
  "malloc m = (case mallocs m of [] \<Rightarrow> (True, m) | ok # rest \<Rightarrow> (ok, m\<lparr>mallocs := rest\<rparr>))"

section \<open>The atom table (drsh.c, lines 959--973 and 2723--2810)\<close>

text \<open>
  \<^verbatim>\<open>data\<close> is one allocation that holds the array \<^verbatim>\<open>atoms\<close> of \<^verbatim>\<open>cap\<close> pointers and, behind it,
  the index array \<^verbatim>\<open>idxes\<close> of \<^verbatim>\<open>2 * cap\<close> entries of type \<^verbatim>\<open>uint32_t\<close>: 0 for an empty slot,
  \<open>i + 1\<close> for the entry \<open>i\<close> of \<^verbatim>\<open>atoms\<close>. \<open>atoms\<close> maps the entries that have been written to
  the pointers they hold; \<^verbatim>\<open>realloc\<close> keeps them. \<open>idxes\<close> is the list of all the slots.
  \<open>special\<close> maps the places of the enumeration of the built-in names to the pointers stored
  there.

  \<^verbatim>\<open>cap\<close> and \<^verbatim>\<open>count\<close> are \<^verbatim>\<open>size_t\<close> (64 bits) and modelled as natural numbers: \<^verbatim>\<open>count\<close> is
  only ever incremented, once for each atom that is allocated and never freed, so it stays
  far below \<open>2 ^ 64\<close>, and \<^verbatim>\<open>cap\<close> with it. Where the source converts them to \<^verbatim>\<open>uint32_t\<close>
  the reduction modulo \<open>2 ^ 32\<close> is written out.
\<close>

record DrshAtomTable =
  atoms :: "nat \<Rightarrow> nat option"
  idxes :: "nat list"
  cap :: nat
  count :: nat
  special :: "nat \<Rightarrow> nat option"

text \<open>
  The step of every probing loop of the source: \<^verbatim>\<open>idx++; if(idx > 2*cap) idx = 0;\<close> with
  \<^verbatim>\<open>idx\<close> a \<^verbatim>\<open>uint32_t\<close>.
\<close>

definition next_idx :: "nat \<Rightarrow> nat \<Rightarrow> nat" where
  "next_idx cp idx = (let idx' = (idx + 1) mod 2 ^ 32 in if idx' > 2 * cp then 0 else idx')"

text \<open>
  \<^verbatim>\<open>while(idxes[idx]){...}\<close>, the loop that looks for an empty slot when the index is
  rebuilt. A loop of the source that would not end, or that reads \<open>idxes\<close> out of its bounds,
  is \<open>None\<close>: the fuel given by the callers is the length of the index plus one, more than
  the number of slots the loop can visit before it repeats itself.
\<close>

fun find_free :: "nat \<Rightarrow> nat list \<Rightarrow> nat \<Rightarrow> nat \<Rightarrow> nat option" where
  "find_free 0 ix cp idx = None"
| "find_free (Suc fuel) ix cp idx =
     (if idx \<ge> length ix then None
      else if ix ! idx = 0 then Some idx
      else find_free fuel ix cp (next_idx cp idx))"

text \<open>
  \<^verbatim>\<open>while((i = idxes[idx])){ if(match) return; ...}\<close>, the loop that looks an entry up:
  it ends at the entry that matches or at the first empty slot. \<open>look j\<close> reads the entry
  \<open>j\<close> and compares it with the key; it is \<open>None\<close> when the read is undefined.
\<close>

datatype probe_result = Found nat | Empty nat

fun probe :: "nat \<Rightarrow> (nat \<Rightarrow> bool option) \<Rightarrow> nat list \<Rightarrow> nat \<Rightarrow> nat \<Rightarrow> probe_result option" where
  "probe 0 look ix cp idx = None"
| "probe (Suc fuel) look ix cp idx =
     (if idx \<ge> length ix then None
      else let i = ix ! idx in
        if i = 0 then Some (Empty idx)
        else case look (i - 1) of
            None \<Rightarrow> None
          | Some True \<Rightarrow> Some (Found (i - 1))
          | Some False \<Rightarrow> probe fuel look ix cp (next_idx cp idx))"

declare find_free.simps [simp del] probe.simps [simp del]

text \<open>
  The loop that rebuilds the index from the hashes of the entries \<open>i, i + 1, ...\<close>:
  \<^verbatim>\<open>idxes[idx] = (uint32_t)i+1\<close>.
\<close>

fun rehash :: "nat \<Rightarrow> nat \<Rightarrow> 32 word list \<Rightarrow> nat list \<Rightarrow> nat list option" where
  "rehash cp i [] ix = Some ix"
| "rehash cp i (h # hs) ix =
     (case find_free (length ix + 1) ix cp (drsh_fast_reduce32 h cp) of
        None \<Rightarrow> None
      | Some idx \<Rightarrow> rehash cp (i + 1) hs (ix[idx := (i mod 2 ^ 32 + 1) mod 2 ^ 32]))"

text \<open>\<^verbatim>\<open>atoms[i]\<close>, read through: \<open>None\<close> when the entry was never written.\<close>

definition at_entry :: "Memory \<Rightarrow> DrshAtomTable \<Rightarrow> nat \<Rightarrow> DrshAtom option" where
  "at_entry m at i =
     (case atoms at i of
        None \<Rightarrow> None
      | Some p \<Rightarrow> if p < length (heap m) then Some (heap m ! p) else None)"

text \<open>\<^verbatim>\<open>atoms[i]->hash\<close> for the entries \<open>i < n\<close>, as the loop of the growth reads them.\<close>

fun at_hashes :: "Memory \<Rightarrow> DrshAtomTable \<Rightarrow> nat \<Rightarrow> 32 word list option" where
  "at_hashes m at 0 = Some []"
| "at_hashes m at (Suc n) =
     (case at_hashes m at n of
        None \<Rightarrow> None
      | Some hs \<Rightarrow> (case at_entry m at n of None \<Rightarrow> None | Some a \<Rightarrow> Some (hs @ [hash a])))"

text \<open>
  The growth at the head of \<^verbatim>\<open>drsh_at_atomize\<close> (lines 2729--2756): one request to the
  allocator, the table untouched when it fails.
\<close>

definition at_grow :: "Memory \<Rightarrow> DrshAtomTable \<Rightarrow> (error + DrshAtomTable) \<times> Memory" where
  "at_grow m at =
     (if count at * 10 div 8 \<ge> cap at then
        (let old_cap = cap at;
             cp = (if old_cap \<noteq> 0 then 2 * old_cap else 4);
             (ok, m1) = malloc m
         in if \<not> ok then (Inl EC_OOM, m1)
            else case at_hashes m1 at (count at) of
                None \<Rightarrow> (Inl Undefined, m1)
              | Some hs \<Rightarrow>
                 (case rehash cp 0 hs (replicate (2 * cp) 0) of
                    None \<Rightarrow> (Inl Undefined, m1)
                  | Some ix \<Rightarrow> (Inr (at\<lparr>idxes := ix, cap := cp\<rparr>), m1)))
      else (Inr at, m))"

definition UINT32_MAX :: nat where
  "UINT32_MAX = 4294967295"

text \<open>\<^verbatim>\<open>hash = drsh_hash_align1(txt, length); if(!hash) hash = 1024;\<close>\<close>

definition atom_hash :: "(string \<Rightarrow> 32 word) \<Rightarrow> string \<Rightarrow> 32 word" where
  "atom_hash H text = (let h = H text in if h = 0 then 1024 else h)"

text \<open>The comparison of the probing loop: hash, length and bytes.\<close>

definition at_look :: "Memory \<Rightarrow> DrshAtomTable \<Rightarrow> 32 word \<Rightarrow> string \<Rightarrow> nat \<Rightarrow> bool option" where
  "at_look m at hsh text j =
     (case at_entry m at j of
        None \<Rightarrow> None
      | Some a \<Rightarrow> Some (hash a = hsh \<and> length (atom_txt a) = length text \<and> atom_txt a = text))"

text \<open>
  \<^verbatim>\<open>drsh_at_atomize\<close>. The result is the code returned (\<open>None\<close> for \<^verbatim>\<open>EC_OK\<close>) with the
  pointer that the call stored in \<^verbatim>\<open>*out_atom\<close>, if it stored one, then the memory and the
  table as the call leaves them, also when it fails. The two buffers of a new atom are
  requested one after the other before either result is looked at. The new atom is stored
  with \<^verbatim>\<open>iatom = NULL\<close> and counted; when a byte of the text lacks the bit \<^verbatim>\<open>0x20\<close> the
  function calls itself on the text with the bit set in every byte, with the new atom's
  \<^verbatim>\<open>iatom\<close> as \<^verbatim>\<open>out_atom\<close>, and otherwise the atom is its own \<open>iatom\<close>. When the inner call
  fails the outer one returns its code, and the new atom stays in the table as it is.
\<close>

definition store_iatom :: "Memory \<Rightarrow> nat \<Rightarrow> nat option \<Rightarrow> Memory" where
  "store_iatom m p out =
     (case out of
        None \<Rightarrow> m
      | Some q \<Rightarrow> m\<lparr>heap := (heap m)[p := (heap m ! p)\<lparr>iatom := Some q\<rparr>]\<rparr>)"

function drsh_at_atomize ::
  "(string \<Rightarrow> 32 word) \<Rightarrow> Memory \<Rightarrow> DrshAtomTable \<Rightarrow> string \<Rightarrow>
     (error option \<times> nat option) \<times> Memory \<times> DrshAtomTable" where
  "drsh_at_atomize H m0 at0 text =
     (if length text \<ge> UINT32_MAX then ((Some EC_VALUE_ERROR, None), m0, at0)
      else case at_grow m0 at0 of
        (Inl err, m1) \<Rightarrow> ((Some err, None), m1, at0)
      | (Inr at, m1) \<Rightarrow>
         (let hsh = atom_hash H text;
              idx0 = drsh_fast_reduce32 hsh (cap at)
          in case probe (length (idxes at) + 1) (at_look m1 at hsh text) (idxes at) (cap at) idx0 of
               None \<Rightarrow> ((Some Undefined, None), m1, at)
             | Some (Found j) \<Rightarrow>
                 (case atoms at j of
                    None \<Rightarrow> ((Some Undefined, None), m1, at)
                  | Some p \<Rightarrow> ((None, Some p), m1, at))
             | Some (Empty idx) \<Rightarrow>
                (let (a_ok, m2) = malloc m1;
                     (b_ok, m3) = malloc m2
                 in if \<not> a_ok \<or> \<not> b_ok then ((Some EC_OOM, None), m3, at)
                    else
                     (let i = count at mod 2 ^ 32;
                          p = length (heap m3);
                          a = \<lparr>hash = hsh, iatom = None, atom_txt = text\<rparr>;
                          m4 = m3\<lparr>heap := heap m3 @ [a]\<rparr>;
                          at1 = at\<lparr>count := count at + 1,
                                   idxes := (idxes at)[idx := (i + 1) mod 2 ^ 32],
                                   atoms := (atoms at)(i \<mapsto> p)\<rparr>
                      in if list_ex (\<lambda>c. or20 c \<noteq> c) text then
                           (case drsh_at_atomize H m4 at1 (map or20 text) of
                              ((ec, out), m5, at2) \<Rightarrow> ((ec, Some p), store_iatom m5 p out, at2))
                         else ((None, Some p), store_iatom m4 p (Some p), at1)))))"
  by pat_completeness auto
termination
  by (relation "measure (\<lambda>(H, m, at, text). if list_ex (\<lambda>c. or20 c \<noteq> c) text then 1 else 0)")
     (auto simp: list_ex_iff simp del: probe.simps)

declare drsh_at_atomize.simps [simp del]



definition atom_tokens :: "string list" where
  "atom_tokens = [''pwd'', ''cd'', ''echo'', ''set'', ''exit'', ''source'', ''time'', ''PWD'',
     ''HOME'', ''PATH'', ''PATHEXT'', ''COLUMNS'', ''LINES'', ''TERM'', ''USER'', ''SHELL'',
     ''SHLVL'', ''DRSH_HISTORY'', ''DRSH_CONFIG'', ''debug'', ''on'', ''off'', ''true'',
     ''false'', ''0'', ''1'', ''.'']"

definition store_special :: "DrshAtomTable \<Rightarrow> nat \<Rightarrow> nat option \<Rightarrow> DrshAtomTable" where
  "store_special at i out =
     (case out of None \<Rightarrow> at | Some p \<Rightarrow> at\<lparr>special := (special at)(i \<mapsto> p)\<rparr>)"

fun at_init_loop ::
  "(string \<Rightarrow> 32 word) \<Rightarrow> Memory \<Rightarrow> DrshAtomTable \<Rightarrow> nat \<Rightarrow> string list \<Rightarrow>
     error option \<times> Memory \<times> DrshAtomTable" where
  "at_init_loop H m at i [] = (None, m, at)"
| "at_init_loop H m at i (t # ts) =
     (case drsh_at_atomize H m at t of
        ((ec, out), m1, at1) \<Rightarrow>
          (if ec \<noteq> None then (ec, m1, store_special at1 i out)
           else at_init_loop H m1 (store_special at1 i out) (i + 1) ts))"

definition drsh_at_init ::
  "(string \<Rightarrow> 32 word) \<Rightarrow> Memory \<Rightarrow> DrshAtomTable \<Rightarrow> error option \<times> Memory \<times> DrshAtomTable" where
  "drsh_at_init H m at = at_init_loop H m at 0 atom_tokens"

section \<open>Runs of calls\<close>





section \<open>Invariants and words of the spec\<close>

text \<open>
  What the proofs below maintain. The probing loops start at \<open>drsh_fast_reduce32 h cap\<close>,
  which is below \<open>start_bound cap\<close>: the capacity itself while it fits \<^verbatim>\<open>uint32_t\<close>, and 1 once
  its conversion gives 0. \<open>idx_ok ix cp sb n start\<close> is the state of an index of \<open>2 * cp\<close>
  slots over \<open>n\<close> entries, the entry \<open>j\<close> hashing to the slot \<open>start j\<close>: no slot names an
  entry beyond \<open>n\<close>, the slots from \<open>sb + n - 1\<close> on are empty, and every entry is in a slot
  at or after its start with no empty slot between.
\<close>

definition start_bound :: "nat \<Rightarrow> nat" where
  "start_bound cp = (if cp mod 2 ^ 32 = 0 then 1 else cp mod 2 ^ 32)"

definition idx_ok :: "nat list \<Rightarrow> nat \<Rightarrow> nat \<Rightarrow> nat \<Rightarrow> (nat \<Rightarrow> nat) \<Rightarrow> bool" where
  "idx_ok ix cp sb n start \<longleftrightarrow>
     length ix = 2 * cp \<and>
     (\<forall>s < 2 * cp. ix ! s \<le> n) \<and>
     (\<forall>s < 2 * cp. sb + n \<le> s + 1 \<longrightarrow> ix ! s = 0) \<and>
     (\<forall>j < n. \<exists>s. start j \<le> s \<and> s < 2 * cp \<and> ix ! s = j + 1 \<and>
        (\<forall>t. start j \<le> t \<and> t < s \<longrightarrow> ix ! t \<noteq> 0))"

text \<open>
  The atom table with the memory: the index is well formed over the hashes of the atoms,
  the capacity is 0 or a power of two from 4 on, the last atom was counted while the table
  was less than four fifths full, the count fits \<^verbatim>\<open>uint32_t\<close> with room for the \<open>+ 1\<close> of
  the index, the atoms of the memory are the entries of the table in their order, every atom
  carries the hash of its text, and no two atoms have the same text.
\<close>

definition at_inv :: "(string \<Rightarrow> 32 word) \<Rightarrow> Memory \<Rightarrow> DrshAtomTable \<Rightarrow> bool" where
  "at_inv H m at \<longleftrightarrow>
     idx_ok (idxes at) (cap at) (start_bound (cap at)) (count at)
       (\<lambda>j. drsh_fast_reduce32 (hash (heap m ! j)) (cap at)) \<and>
     (cap at = 0 \<or> (\<exists>k. cap at = 2 ^ (k + 2))) \<and>
     (count at = 0 \<or> (count at - 1) * 10 div 8 < cap at) \<and>
     count at \<le> UINT32_MAX \<and>
     length (heap m) = count at \<and>
     (\<forall>i < count at. atoms at i = Some i) \<and>
     (\<forall>p < count at. hash (heap m ! p) = atom_hash H (atom_txt (heap m ! p))) \<and>
     distinct (map atom_txt (heap m))"

text \<open>
  An \<open>iatom\<close> that is set points to an atom whose text is the atom's with \<^verbatim>\<open>0x20\<close> set in
  every byte; \<open>fold_ok\<close>: and every atom has its \<open>iatom\<close> set.
\<close>

definition fold_weak :: "DrshAtom list \<Rightarrow> bool" where
  "fold_weak xs \<longleftrightarrow>
     (\<forall>p < length xs. \<forall>q. iatom (xs ! p) = Some q \<longrightarrow>
        q < length xs \<and> atom_txt (xs ! q) = map or20 (atom_txt (xs ! p)))"

definition fold_ok :: "DrshAtom list \<Rightarrow> bool" where
  "fold_ok xs \<longleftrightarrow> fold_weak xs \<and> (\<forall>p < length xs. iatom (xs ! p) \<noteq> None)"

text \<open>What holds of every state that the calls reach, whether they fail or not.\<close>

definition at_ok :: "(string \<Rightarrow> 32 word) \<Rightarrow> Memory \<Rightarrow> DrshAtomTable \<Rightarrow> bool" where
  "at_ok H m at \<longleftrightarrow> at_inv H m at \<and> fold_weak (heap m)"

text \<open>
  The states reached from a state by calls of \<open>drsh_at_atomize\<close>, whatever the allocator
  does in each, and by stores into \<^verbatim>\<open>special\<close>. With \<open>failures\<close> the calls that return an error
  count as well as those that return \<^verbatim>\<open>EC_OK\<close>; without, only the latter.
\<close>

inductive at_steps ::
  "(string \<Rightarrow> 32 word) \<Rightarrow> bool \<Rightarrow> Memory \<times> DrshAtomTable \<Rightarrow> Memory \<times> DrshAtomTable \<Rightarrow> bool"
  for H :: "string \<Rightarrow> 32 word" and failures :: bool and s :: "Memory \<times> DrshAtomTable" where
  at_steps_refl: "at_steps H failures s s"
| at_steps_atomize:
    "at_steps H failures s (m1, at1) \<Longrightarrow>
     drsh_at_atomize H (m1\<lparr>mallocs := al\<rparr>) at1 t = ((None, out), m2, at2) \<Longrightarrow>
     at_steps H failures s (m2, at2)"
| at_steps_failed:
    "at_steps H failures s (m1, at1) \<Longrightarrow> failures \<Longrightarrow>
     drsh_at_atomize H (m1\<lparr>mallocs := al\<rparr>) at1 t = ((Some e, out), m2, at2) \<Longrightarrow>
     at_steps H failures s (m2, at2)"
| at_steps_special: "at_steps H failures s (m1, at1) \<Longrightarrow> at_steps H failures s (m1, at1\<lparr>special := sp\<rparr>)"


chapter \<open>Properties\<close>

section \<open>Bytes\<close>

text \<open>\<open>or20\<close> is the bitwise OR with \<^verbatim>\<open>0x20\<close> on the byte's value.\<close>

lemma or20_char_of: "or20 c = char_of ((of_char c :: nat) OR 0x20)"
proof (cases c)
  case (Char b0 b1 b2 b3 b4 b5 b6 b7)
  have b: "bit (32::nat) n \<longleftrightarrow> n = 5" for n
    using bit_exp_iff [where ?'a = nat, of 5 n] by auto
  show ?thesis
    unfolding Char or20.simps char_of_def of_char_Char
    by (simp only: bit_or_iff bit_horner_sum_bit_iff b) simp
qed

section \<open>Byte expansion distance\<close>

lemma bed_strip_Nil [simp]: "bed_strip eq h [] d = d + int (length h)"
  by (simp add: bed_strip.simps)

lemma bed_strip_Nil2 [simp]: "bed_strip eq [] (y # ys) d = -1"
  by (simp add: bed_strip.simps)

lemma bed_strip_Cons [simp]:
  "bed_strip eq (x # xs) (y # ys) d =
     (if eq x y then bed_strip eq xs ys d else bed_skip eq (x # xs) (y # ys) d)"
  by (simp add: bed_strip.simps)

lemma bed_skip_Nil [simp]: "bed_skip eq [] n d = -1"
  by (simp add: bed_skip.simps)

lemma bed_skip_Cons [simp]:
  "bed_skip eq (x # xs) (y # ys) d =
     (if eq x y then bed_outer eq (x # xs) (y # ys) d else bed_skip eq xs (y # ys) (d + 1))"
  by (simp add: bed_skip.simps)

lemma bed_outer_unfold:
  "bed_outer eq h n d = (if length n > length h then -1 else bed_strip eq h n d)"
  by (cases n) (simp_all add: bed_outer.simps)

text \<open>The three loops, started anywhere with any count, against the subsequence relation.\<close>

lemma bed_spec:
  "bed_outer (=) h n d = (if subseq n h then d + int (length h) - int (length n) else -1)"
  "bed_strip (=) h n d = (if subseq n h then d + int (length h) - int (length n) else -1)"
  "n \<noteq> [] \<Longrightarrow>
     bed_skip (=) h n d = (if subseq n h then d + int (length h) - int (length n) else -1)"
proof (induction "(=) :: char \<Rightarrow> char \<Rightarrow> bool" h n d
         and "(=) :: char \<Rightarrow> char \<Rightarrow> bool" h n d
         and "(=) :: char \<Rightarrow> char \<Rightarrow> bool" h n d
       rule: bed_outer_bed_strip_bed_skip.induct)
  case (1 haystack needle difference)
  then show ?case
    by (cases needle) (auto simp: bed_outer_unfold dest: list_emb_length)
next
  case (2 haystack needle difference)
  then show ?case
    by (cases haystack; cases needle) auto
next
  case (3 haystack needle difference)
  then show ?case
    by (cases haystack; cases needle) auto
qed

text \<open>Comparing through a function of the byte is comparing the mapped strings.\<close>

lemma bed_map:
  "bed_outer (\<lambda>a b. f a = f b) h n d = bed_outer (=) (map f h) (map f n) d"
  "bed_strip (\<lambda>a b. f a = f b) h n d = bed_strip (=) (map f h) (map f n) d"
  "n \<noteq> [] \<Longrightarrow>
     bed_skip (\<lambda>a b. f a = f b) h n d = bed_skip (=) (map f h) (map f n) d"
proof (induction "(\<lambda>a b. f a = f b) :: char \<Rightarrow> char \<Rightarrow> bool" h n d
         and "(\<lambda>a b. f a = f b) :: char \<Rightarrow> char \<Rightarrow> bool" h n d
         and "(\<lambda>a b. f a = f b) :: char \<Rightarrow> char \<Rightarrow> bool" h n d
       rule: bed_outer_bed_strip_bed_skip.induct)
  case (1 haystack needle difference)
  then show ?case
    by (cases needle) (auto simp: bed_outer_unfold)
next
  case (2 haystack needle difference)
  then show ?case
    by (cases haystack; cases needle) auto
next
  case (3 haystack needle difference)
  then show ?case
    by (cases haystack; cases needle) auto
qed

text \<open>
  C3. For every haystack \<open>h\<close> and needle \<open>n\<close>, \<open>byte_expansion_distance h n\<close> is \<open>-1\<close>
  when \<open>n\<close> is not an in-order subsequence of \<open>h\<close>, and the difference of the lengths
  otherwise; \<open>byte_expansion_distance_icase\<close> is the same function of the two strings
  with \<^verbatim>\<open>0x20\<close> OR-ed into each byte.
\<close>

theorem byte_expansion_distance_correct:
  "byte_expansion_distance h n =
     (if subseq n h then int (length h) - int (length n) else -1) \<and>
   byte_expansion_distance_icase h n =
     (if subseq (map or20 n) (map or20 h) then int (length h) - int (length n) else -1)"
proof
  show "byte_expansion_distance h n =
      (if subseq n h then int (length h) - int (length n) else -1)"
    unfolding byte_expansion_distance_def by (simp add: bed_spec(1))
  have "byte_expansion_distance_icase h n = bed_outer (=) (map or20 h) (map or20 n) 0"
    unfolding byte_expansion_distance_icase_def by (rule bed_map(1))
  then show "byte_expansion_distance_icase h n =
      (if subseq (map or20 n) (map or20 h) then int (length h) - int (length n) else -1)"
    by (simp add: bed_spec(1))
qed

theorem byte_expansion_distance_correct_witness:
  "byte_expansion_distance ''debugger'' ''dbg'' = 5 \<and>
   byte_expansion_distance ''debugger'' ''gdb'' = -1 \<and>
   byte_expansion_distance_icase ''README'' ''rdm'' = 3"
proof -
  have a: "subseq ''dbg'' ''debugger''"
    by simp
  have b: "\<not> subseq ''gdb'' ''debugger''"
    by simp
  have c: "subseq (map or20 ''rdm'') (map or20 ''README'')"
    by simp
  have "byte_expansion_distance ''debugger'' ''dbg'' = 5"
    using byte_expansion_distance_correct [of "''debugger''" "''dbg''"] by (simp only: a if_True) simp
  moreover have "byte_expansion_distance ''debugger'' ''gdb'' = -1"
    using byte_expansion_distance_correct [of "''debugger''" "''gdb''"] by (simp only: b if_False)
  moreover have "byte_expansion_distance_icase ''README'' ''rdm'' = 3"
    using byte_expansion_distance_correct [of "''README''" "''rdm''"] by (simp only: c if_True) simp
  ultimately show ?thesis
    by (intro conjI)
qed

section \<open>The index of an open-addressed table\<close>







lemma start_bound_pos: "0 < start_bound cp"
  by (simp add: start_bound_def)








section \<open>The atom table\<close>









lemma at_inv_special [simp]: "at_inv H m (at\<lparr>special := sp\<rparr>) = at_inv H m at"
  by (simp add: at_inv_def)






















lemma fold_ok_weak: "fold_ok xs \<Longrightarrow> fold_weak xs"
  by (simp add: fold_ok_def)





lemma at_ok_mallocs [simp]: "at_ok H (m\<lparr>mallocs := al\<rparr>) at = at_ok H m at"
  by (simp add: at_ok_def at_inv_def)

lemma at_ok_special [simp]: "at_ok H m (at\<lparr>special := sp\<rparr>) = at_ok H m at"
  by (simp add: at_ok_def)








section \<open>The table at the end of the range of \<^verbatim>\<open>uint32_t\<close>\<close>


























end
